theory Spec2Isabelle
  imports Main
begin

section \<open>Data model of summitengine.py\<close>

text \<open>
  \<^verbatim>\<open>pygame.Rect\<close> holds four C ints of 32 bits. The fields are integers here, and every
  place where pygame converts a Python integer to a C int, or adds two C ints, is written out
  with \<open>c_int\<close>, the value of an integer cut to 32 bits in two's complement, and
  \<open>in_c_int\<close>, the range in which \<open>c_int\<close> changes nothing.
\<close>

definition in_c_int :: "int \<Rightarrow> bool" where
  "in_c_int v \<longleftrightarrow> - 2147483648 \<le> v \<and> v \<le> 2147483647"

definition c_int :: "int \<Rightarrow> int" where
  "c_int v = (v + 2147483648) mod 4294967296 - 2147483648"

record rect =
  x :: int
  y :: int
  width :: int
  height :: int

type_synonym color = "int \<times> int \<times> int"

text \<open>
  \<^verbatim>\<open>Rect.collidepoint\<close> of the pygame library: a point on the left or top edge is inside,
  a point on the right or bottom edge is not. The right and the bottom edge are sums of two
  C ints, computed in C ints: beyond the 32-bit range they wrap around. The point is one that
  pygame hands out in an event, a pair of C ints.
\<close>

definition collidepoint :: "rect \<Rightarrow> int \<times> int \<Rightarrow> bool" where
  "collidepoint r p \<longleftrightarrow>
     x r \<le> fst p \<and> fst p < c_int (x r + width r) \<and>
     y r \<le> snd p \<and> snd p < c_int (y r + height r)"

text \<open>
  The exceptions: AttributeError for an attribute that was never set, and those that the
  pygame calls of the module raise.
\<close>

datatype error = AttributeError | TypeError | ValueError | OverflowError

text \<open>
  The class hierarchy \<^verbatim>\<open>GameObject\<close> / \<^verbatim>\<open>Button\<close> / \<^verbatim>\<open>Label\<close> / \<^verbatim>\<open>InputBox\<close> /
  \<^verbatim>\<open>ScrollView\<close>: one constructor per class, one selector per attribute. The font object
  that \<^verbatim>\<open>pygame.font.Font(None, font_size)\<close> returns is represented by an integer, for the
  example program its size. \<^verbatim>\<open>ScrollView.__init__\<close>
  does not set \<^verbatim>\<open>children\<close>; the attribute exists only once a caller assigns it, hence the
  option. Each element of a string stands for one character of the Python string.
\<close>

datatype widget =
    is_GameObject: GameObject (rect: rect) (color: color)
  | is_Button: Button (rect: rect) (color: color) (text': string) (text_color: color) (font: int)
  | is_Label: Label (rect: rect) (color: color) (text': string) (text_color: color) (font: int)
  | is_InputBox: InputBox (rect: rect) (color: color) (text_color: color) (font: int)
      (text': string) (active: bool)
  | is_ScrollView: ScrollView (rect: rect) (color: color) (content_height: int) (scroll_y: int)
      (children: "widget list option")

text \<open>
  The events of \<^verbatim>\<open>pygame.event.get()\<close>: the three types the module looks at, with the
  attributes it reads, and \<open>OTHER\<close> for every other event type. The position and the button
  of an event are C ints of pygame's.
\<close>

datatype event =
    QUIT
  | MOUSEBUTTONDOWN (pos: "int \<times> int") (button: int)
  | KEYDOWN (key: int) (unicode: string)
  | OTHER

definition K_RETURN :: int where
  "K_RETURN = 13"

definition K_BACKSPACE :: int where
  "K_BACKSPACE = 8"

section \<open>Constructors\<close>

text \<open>
  \<^verbatim>\<open>pygame.Rect(x, y, width, height)\<close> reads each argument into a C long (64 bits) and keeps
  its low 32 bits: \<open>2^31\<close> is stored as \<open>- 2^31\<close>. An integer that does not fit the C long is
  refused with a TypeError. Nothing looks at the sign of a value: a zero or negative width or
  height is stored like any other.
\<close>

definition to_c_int :: "int \<Rightarrow> error + int" where
  "to_c_int v =
     (if - 9223372036854775808 \<le> v \<and> v \<le> 9223372036854775807 then Inr (c_int v)
      else Inl TypeError)"

definition Rect_init :: "int \<Rightarrow> int \<Rightarrow> int \<Rightarrow> int \<Rightarrow> error + rect" where
  "Rect_init px py w h =
     (case to_c_int px of Inl e \<Rightarrow> Inl e | Inr cx \<Rightarrow>
      case to_c_int py of Inl e \<Rightarrow> Inl e | Inr cy \<Rightarrow>
      case to_c_int w of Inl e \<Rightarrow> Inl e | Inr cw \<Rightarrow>
      case to_c_int h of Inl e \<Rightarrow> Inl e | Inr chh \<Rightarrow>
        Inr \<lparr>x = cx, y = cy, width = cw, height = chh\<rparr>)"

text \<open>
  \<^verbatim>\<open>GameObject.__init__\<close> builds the rect and stores the colour. The subclasses call it
  first, store their own attributes and, where they have a text, create the font.
  \<^verbatim>\<open>pygame.font.Font\<close> is pygame's: whether it returns a font or raises (as it does for a
  size beyond the C int range) is not the module's doing, so the call is the argument
  \<open>Font\<close> of the constructors that make it.
\<close>

definition GameObject_init :: "int \<Rightarrow> int \<Rightarrow> int \<Rightarrow> int \<Rightarrow> color \<Rightarrow> error + widget" where
  "GameObject_init px py w h col =
     (case Rect_init px py w h of
        Inl e \<Rightarrow> Inl e
      | Inr r \<Rightarrow> Inr (GameObject r col))"

definition Button_init ::
  "(int \<Rightarrow> error + int) \<Rightarrow> int \<Rightarrow> int \<Rightarrow> int \<Rightarrow> int \<Rightarrow> color \<Rightarrow> string \<Rightarrow> color \<Rightarrow> int
     \<Rightarrow> error + widget" where
  "Button_init Font px py w h col txt tcol font_size =
     (case GameObject_init px py w h col of
        Inl e \<Rightarrow> Inl e
      | Inr g \<Rightarrow>
          (case Font font_size of
             Inl e \<Rightarrow> Inl e
           | Inr fnt \<Rightarrow> Inr (Button (rect g) (color g) txt tcol fnt)))"

definition Label_init ::
  "(int \<Rightarrow> error + int) \<Rightarrow> int \<Rightarrow> int \<Rightarrow> int \<Rightarrow> int \<Rightarrow> color \<Rightarrow> string \<Rightarrow> color \<Rightarrow> int
     \<Rightarrow> error + widget" where
  "Label_init Font px py w h col txt tcol font_size =
     (case GameObject_init px py w h col of
        Inl e \<Rightarrow> Inl e
      | Inr g \<Rightarrow>
          (case Font font_size of
             Inl e \<Rightarrow> Inl e
           | Inr fnt \<Rightarrow> Inr (Label (rect g) (color g) txt tcol fnt)))"

definition InputBox_init ::
  "(int \<Rightarrow> error + int) \<Rightarrow> int \<Rightarrow> int \<Rightarrow> int \<Rightarrow> int \<Rightarrow> color \<Rightarrow> color \<Rightarrow> int
     \<Rightarrow> error + widget" where
  "InputBox_init Font px py w h col tcol font_size =
     (case GameObject_init px py w h col of
        Inl e \<Rightarrow> Inl e
      | Inr g \<Rightarrow>
          (case Font font_size of
             Inl e \<Rightarrow> Inl e
           | Inr fnt \<Rightarrow> Inr (InputBox (rect g) (color g) tcol fnt [] False)))"

definition ScrollView_init ::
  "int \<Rightarrow> int \<Rightarrow> int \<Rightarrow> int \<Rightarrow> color \<Rightarrow> int \<Rightarrow> error + widget" where
  "ScrollView_init px py w h col ch =
     (case GameObject_init px py w h col of
        Inl e \<Rightarrow> Inl e
      | Inr g \<Rightarrow> Inr (ScrollView (rect g) (color g) ch 0 None))"

section \<open>Widget methods\<close>

text \<open>\<^verbatim>\<open>Button.is_clicked\<close>: reads the rect, returns a truth value, assigns nothing.\<close>

fun is_clicked :: "widget \<Rightarrow> int \<times> int \<Rightarrow> bool" where
  "is_clicked (Button r col txt tcol f) mouse_pos = collidepoint r mouse_pos"

text \<open>
  \<^verbatim>\<open>InputBox.handle_event\<close>. The two \<^verbatim>\<open>if\<close> statements run one after the other: the
  first settles \<^verbatim>\<open>active\<close>, the second reads the settled value. \<open>out\<close> is the standard
  output, a list of printed lines.
\<close>

fun InputBox_handle_event :: "widget \<Rightarrow> event \<Rightarrow> string list \<Rightarrow> widget \<times> string list" where
  "InputBox_handle_event (InputBox r col tcol f txt a) ev out =
     (let a' = (case ev of
                  MOUSEBUTTONDOWN p b \<Rightarrow> (if collidepoint r p then \<not> a else False)
                | _ \<Rightarrow> a)
      in case ev of
           KEYDOWN k u \<Rightarrow>
             if a' then
               (if k = K_RETURN then (InputBox r col tcol f [] a', out @ [''Input: '' @ txt])
                else if k = K_BACKSPACE then (InputBox r col tcol f (butlast txt) a', out)
                else (InputBox r col tcol f (txt @ u) a', out))
             else (InputBox r col tcol f txt a', out)
         | _ \<Rightarrow> (InputBox r col tcol f txt a', out))"

text \<open>\<^verbatim>\<open>ScrollView.handle_event\<close>: two independent tests of the button, in the source's order.\<close>

fun ScrollView_handle_event :: "widget \<Rightarrow> event \<Rightarrow> widget" where
  "ScrollView_handle_event (ScrollView r col ch sy kids) ev =
     (case ev of
        MOUSEBUTTONDOWN p b \<Rightarrow>
          if collidepoint r p then
            (let sy1 = (if b = 4 then min (sy + 10) 0 else sy);
                 sy2 = (if b = 5 then max (sy1 - 10) (- (ch - height r)) else sy1)
             in ScrollView r col ch sy2 kids)
          else ScrollView r col ch sy kids
      | _ \<Rightarrow> ScrollView r col ch sy kids)"

section \<open>The engine's event routing\<close>

text \<open>
  The attributes of \<^verbatim>\<open>GameEngine\<close> that its own code reads and writes; the screen and the
  clock belong to pygame.
\<close>

record engine =
  running :: bool
  game_objects :: "widget list"
  ui_elements :: "widget list"

definition GameEngine_init :: engine where
  "GameEngine_init = \<lparr>running = True, game_objects = [], ui_elements = []\<rparr>"

definition add_game_object :: "engine \<Rightarrow> widget \<Rightarrow> engine" where
  "add_game_object eng g = eng\<lparr>game_objects := game_objects eng @ [g]\<rparr>"

definition add_ui_element :: "engine \<Rightarrow> widget \<Rightarrow> engine" where
  "add_ui_element eng u = eng\<lparr>ui_elements := ui_elements eng @ [u]\<rparr>"

definition clicked_message :: "widget \<Rightarrow> string" where
  "clicked_message b = ''Button '' @ [CHR 0x27] @ text' b @ [CHR 0x27] @ '' clicked!''"

text \<open>The loop of lines 121 to 123: one printed line for each Button that is hit.\<close>

fun notify_clicks :: "widget list \<Rightarrow> int \<times> int \<Rightarrow> string list \<Rightarrow> string list" where
  "notify_clicks [] p out = out"
| "notify_clicks (u # us) p out =
     notify_clicks us p
       (if is_Button u \<and> is_clicked u p then out @ [clicked_message u] else out)"

text \<open>The loop of lines 124 to 126: every InputBox and ScrollView handles the event, in list order.\<close>

fun forward_event :: "widget list \<Rightarrow> event \<Rightarrow> string list \<Rightarrow> widget list \<times> string list" where
  "forward_event [] ev out = ([], out)"
| "forward_event (u # us) ev out =
     (let (u', out1) =
            (if is_InputBox u then InputBox_handle_event u ev out
             else if is_ScrollView u then (ScrollView_handle_event u ev, out)
             else (u, out));
          (us', out2) = forward_event us ev out1
      in (u' # us', out2))"

text \<open>The body of the loop over the event queue, for one event.\<close>

definition handle_one_event :: "engine \<Rightarrow> event \<Rightarrow> string list \<Rightarrow> engine \<times> string list" where
  "handle_one_event eng ev out =
     (let eng1 = (if ev = QUIT then eng\<lparr>running := False\<rparr> else eng);
          out1 = (case ev of
                    MOUSEBUTTONDOWN p b \<Rightarrow>
                      (if b = 1 then notify_clicks (ui_elements eng1) p out else out)
                  | _ \<Rightarrow> out);
          (us, out2) = forward_event (ui_elements eng1) ev out1
      in (eng1\<lparr>ui_elements := us\<rparr>, out2))"

text \<open>\<^verbatim>\<open>GameEngine.handle_events\<close>, with the queue of \<^verbatim>\<open>pygame.event.get()\<close> as an argument.\<close>

fun handle_events :: "engine \<Rightarrow> event list \<Rightarrow> string list \<Rightarrow> engine \<times> string list" where
  "handle_events eng [] out = (eng, out)"
| "handle_events eng (ev # evs) out =
     (let (eng', out') = handle_one_event eng ev out in handle_events eng' evs out')"

section \<open>Rendering\<close>

text \<open>
  The screen is pygame's surface. What the module does to it is recorded: the clip rectangle
  as the module asks for it (\<^verbatim>\<open>get_clip\<close> / \<^verbatim>\<open>set_clip\<close>; pygame crops it to the surface)
  and the drawing calls in order, each with the clip in force when it was made. Font metrics
  are pygame's, so a centred text keeps the rect it is centred in, and the caret keeps the
  text whose measured width places it.
\<close>

datatype draw_op =
    FillRect rect color rect
  | BlitCentered rect string color int rect
  | BlitAt rect string color int "int \<times> int"
  | CaretLine rect color int string int "int \<times> int"

record screen =
  clip :: rect
  ops :: "draw_op list"

definition paint :: "screen \<Rightarrow> (rect \<Rightarrow> draw_op) \<Rightarrow> screen" where
  "paint scr op = scr\<lparr>ops := ops scr @ [op (clip scr)]\<rparr>"

text \<open>\<^verbatim>\<open>GameObject.draw\<close>, which every subclass calls first.\<close>

definition GameObject_draw :: "widget \<Rightarrow> screen \<Rightarrow> screen" where
  "GameObject_draw w scr = paint scr (\<lambda>c. FillRect c (color w) (rect w))"

text \<open>
  The assignment \<^verbatim>\<open>child.rect.y += d\<close>, for a child of any class: Python adds the two
  integers and pygame stores the sum, or raises a TypeError for a sum outside the C int
  range and leaves the rect as it was.
\<close>

fun set_rect :: "widget \<Rightarrow> rect \<Rightarrow> widget" where
  "set_rect (GameObject r col) r' = GameObject r' col"
| "set_rect (Button r col txt tcol f) r' = Button r' col txt tcol f"
| "set_rect (Label r col txt tcol f) r' = Label r' col txt tcol f"
| "set_rect (InputBox r col tcol f txt a) r' = InputBox r' col tcol f txt a"
| "set_rect (ScrollView r col ch sy kids) r' = ScrollView r' col ch sy kids"

definition shift_y :: "widget \<Rightarrow> int \<Rightarrow> error + widget" where
  "shift_y w d =
     (if in_c_int (y (rect w) + d) then Inr (set_rect w ((rect w)\<lparr>y := y (rect w) + d\<rparr>))
      else Inl TypeError)"

lemma size_set_rect [simp]: "size (set_rect w r) = size w"
  by (cases w) simp_all

lemma size_shift_y: "shift_y w d = Inr w' \<Longrightarrow> size w' = size w"
  by (auto simp: shift_y_def split: if_splits)

text \<open>
  The \<^verbatim>\<open>draw\<close> methods, dispatched on the class. A call returns the screen and the object as
  the call leaves them, and the exception if it raised: an exception stops the call where it
  is, so whatever was assigned before stays assigned. \<^verbatim>\<open>Font.render\<close> raises a ValueError
  for a text with a NUL character in it. \<^verbatim>\<open>ScrollView.draw\<close> reads \<^verbatim>\<open>self.children\<close> after
  drawing its own rectangle; \<open>draw_children\<close> is its loop.
\<close>

function draw :: "widget \<Rightarrow> screen \<Rightarrow> screen \<times> widget \<times> error option"
  and draw_children :: "int \<Rightarrow> widget list \<Rightarrow> screen \<Rightarrow> screen \<times> widget list \<times> error option"
where
  "draw (GameObject r col) scr =
     (GameObject_draw (GameObject r col) scr, GameObject r col, None)"
| "draw (Button r col txt tcol f) scr =
     (let scr1 = GameObject_draw (Button r col txt tcol f) scr
      in if CHR 0x00 \<in> set txt then (scr1, Button r col txt tcol f, Some ValueError)
         else (paint scr1 (\<lambda>c. BlitCentered c txt tcol f r), Button r col txt tcol f, None))"
| "draw (Label r col txt tcol f) scr =
     (let scr1 = GameObject_draw (Label r col txt tcol f) scr
      in if CHR 0x00 \<in> set txt then (scr1, Label r col txt tcol f, Some ValueError)
         else (paint scr1 (\<lambda>c. BlitCentered c txt tcol f r), Label r col txt tcol f, None))"
| "draw (InputBox r col tcol f txt a) scr =
     (let scr1 = GameObject_draw (InputBox r col tcol f txt a) scr
      in if CHR 0x00 \<in> set txt then (scr1, InputBox r col tcol f txt a, Some ValueError)
         else
           (let scr2 = paint scr1 (\<lambda>c. BlitAt c txt tcol f (x r + 5, y r + 5));
                scr3 = (if a then
                          paint scr2
                            (\<lambda>c. CaretLine c tcol f txt (x r + 5) (y r + 5, y r + height r - 5))
                        else scr2)
            in (scr3, InputBox r col tcol f txt a, None)))"
| "draw (ScrollView r col ch sy kids) scr =
     (let clip_rect = clip scr;
          scr1 = scr\<lparr>clip := r\<rparr>;
          scr2 = GameObject_draw (ScrollView r col ch sy kids) scr1
      in case kids of
           None \<Rightarrow> (scr2, ScrollView r col ch sy kids, Some AttributeError)
         | Some cs \<Rightarrow>
             (case draw_children sy cs scr2 of
                (scr3, cs', Some e) \<Rightarrow> (scr3, ScrollView r col ch sy (Some cs'), Some e)
              | (scr3, cs', None) \<Rightarrow>
                  (scr3\<lparr>clip := clip_rect\<rparr>, ScrollView r col ch sy (Some cs'), None)))"
| "draw_children sy [] scr = (scr, [], None)"
| "draw_children sy (child # rest) scr =
     (case shift_y child sy of
        Inl e \<Rightarrow> (scr, child # rest, Some e)
      | Inr moved \<Rightarrow>
          (case draw moved scr of
             (scr1, drawn, Some e) \<Rightarrow> (scr1, drawn # rest, Some e)
           | (scr1, drawn, None) \<Rightarrow>
               (case shift_y drawn (- sy) of
                  Inl e \<Rightarrow> (scr1, drawn # rest, Some e)
                | Inr restored \<Rightarrow>
                    (case draw_children sy rest scr1 of
                       (scr2, rest', e) \<Rightarrow> (scr2, restored # rest', e)))))"
  by pat_completeness auto
termination
  by (relation "measure (\<lambda>v. case v of Inl (w, _) \<Rightarrow> size w
                                      | Inr (_, cs, _) \<Rightarrow> size_list size cs)")
     (auto dest: size_shift_y)

section \<open>Sequences of events at one widget\<close>

text \<open>
  Frame after frame the engine hands a widget one event after the other. For one InputBox
  that is a run of \<open>InputBox_handle_event\<close>, each call starting from the box and the output
  the call before left; for one ScrollView, a run of \<open>ScrollView_handle_event\<close>.
\<close>

definition InputBox_handle_all :: "widget \<Rightarrow> event list \<Rightarrow> string list \<Rightarrow> widget \<times> string list" where
  "InputBox_handle_all w evs out =
     foldl (\<lambda>(w', out') ev. InputBox_handle_event w' ev out') (w, out) evs"

definition ScrollView_handle_all :: "widget \<Rightarrow> event list \<Rightarrow> widget" where
  "ScrollView_handle_all w evs = foldl ScrollView_handle_event w evs"

text \<open>The key-down event of a key that produces one character: its key code and the character.\<close>

definition keydown_char :: "int \<times> char \<Rightarrow> event" where
  "keydown_char kc = KEYDOWN (fst kc) [snd kc]"

section \<open>The objects of the example program\<close>

text \<open>The widgets that the module's \<^verbatim>\<open>__main__\<close> block builds, as the constructors return them.\<close>

definition start_button :: widget where
  "start_button =
     Button \<lparr>x = 300, y = 250, width = 200, height = 50\<rparr> (0, 255, 0)
       ''Start Game'' (255, 255, 255) 36"

definition title_label :: widget where
  "title_label =
     Label \<lparr>x = 200, y = 100, width = 400, height = 50\<rparr> (0, 0, 0)
       ''My Awesome Game'' (255, 255, 255) 48"

definition input_box :: widget where
  "input_box =
     InputBox \<lparr>x = 300, y = 350, width = 200, height = 40\<rparr> (255, 255, 255) (0, 0, 0) 32
       [] False"

definition item_label :: "int \<Rightarrow> string \<Rightarrow> widget" where
  "item_label i name =
     Label \<lparr>x = 50, y = 410 + i * 30, width = 200, height = 30\<rparr> (0, 0, 0)
       name (255, 255, 255) 24"

definition scroll_view_children :: "widget list" where
  "scroll_view_children =
     [item_label 0 ''Item 1'', item_label 1 ''Item 2'', item_label 2 ''Item 3'',
      item_label 3 ''Item 4'', item_label 4 ''Item 5'', item_label 5 ''Item 6'',
      item_label 6 ''Item 7'', item_label 7 ''Item 8'', item_label 8 ''Item 9'',
      item_label 9 ''Item 10'']"

definition scroll_view :: widget where
  "scroll_view =
     ScrollView \<lparr>x = 50, y = 400, width = 700, height = 150\<rparr> (100, 100, 100) 300 0
       (Some scroll_view_children)"

text \<open>
  A ScrollView as the constructor returns it, and a second one that has the first as its only
  child: \<^verbatim>\<open>outer.children = [ScrollView(60, 410, 200, 100, (0, 0, 0), 50)]\<close>.
\<close>

definition nested_view :: widget where
  "nested_view =
     ScrollView \<lparr>x = 60, y = 410, width = 200, height = 100\<rparr> (0, 0, 0) 50 0 None"

definition outer_view :: widget where
  "outer_view =
     ScrollView \<lparr>x = 50, y = 400, width = 700, height = 150\<rparr> (100, 100, 100) 300 0
       (Some [nested_view])"

definition main_engine :: engine where
  "main_engine =
     add_ui_element (add_ui_element (add_ui_element (add_ui_element
       (add_game_object GameEngine_init
          (GameObject \<lparr>x = 100, y = 100, width = 50, height = 50\<rparr> (255, 0, 0)))
       start_button) title_label) input_box) scroll_view"

section \<open>C ints\<close>


section \<open>Button hit test\<close>




section \<open>InputBox: focus\<close>



text \<open>
  C9. A pointer-button-down event changes the focus whatever its button is, the wheel
  buttons 4 and 5 included: inside the bounds the focus is toggled, outside it is cleared.
  The buffer and the output stay as they are.
\<close>

theorem InputBox_focus_any_button:
  "InputBox_handle_event (InputBox r col tcol f buf a) (MOUSEBUTTONDOWN p b) out =
     (InputBox r col tcol f buf (if collidepoint r p then \<not> a else False), out)"
  by simp

theorem InputBox_focus_any_button_witness:
  "InputBox_handle_event input_box (MOUSEBUTTONDOWN (310, 360) 4) [] =
     (InputBox (rect input_box) (color input_box) (text_color input_box) (font input_box) [] True, [])
   \<and> InputBox_handle_event
       (InputBox (rect input_box) (color input_box) (text_color input_box) (font input_box) [] True)
       (MOUSEBUTTONDOWN (10, 10) 5) [] = (input_box, [])"
  using InputBox_focus_any_button
          [of "\<lparr>x = 300, y = 350, width = 200, height = 40\<rparr>" "(255, 255, 255)" "(0, 0, 0)" 32
              "[]" False "(310, 360)" 4 "[]"]
        InputBox_focus_any_button
          [of "\<lparr>x = 300, y = 350, width = 200, height = 40\<rparr>" "(255, 255, 255)" "(0, 0, 0)" 32
              "[]" True "(10, 10)" 5 "[]"]
  by (simp add: input_box_def collidepoint_def c_int_def)

section \<open>InputBox: the buffer\<close>

lemma InputBox_typing:
  assumes "\<forall>kc \<in> set kcs. fst kc \<noteq> K_RETURN \<and> fst kc \<noteq> K_BACKSPACE"
  shows "InputBox_handle_all (InputBox r col tcol f buf True) (map keydown_char kcs) out
           = (InputBox r col tcol f (buf @ map snd kcs) True, out)"
  using assms unfolding InputBox_handle_all_def
  by (induction kcs arbitrary: buf) (simp_all add: keydown_char_def)

lemma InputBox_handle_all_append:
  "InputBox_handle_all w (evs @ evs') out =
     (case InputBox_handle_all w evs out of (w', out') \<Rightarrow> InputBox_handle_all w' evs' out')"
  by (simp add: InputBox_handle_all_def split: prod.splits)

text \<open>
  C8. A focused InputBox with an empty buffer that handles the key-down events of the
  characters \<open>c1 .. cn\<close> (keys other than Return and Backspace) holds \<open>c1 .. cn\<close>; a Return key
  after them prints the buffer and leaves the buffer empty; and a Backspace key on an empty
  buffer leaves it empty.
\<close>

theorem InputBox_type_submit_backspace:
  assumes "\<forall>kc \<in> set kcs. fst kc \<noteq> K_RETURN \<and> fst kc \<noteq> K_BACKSPACE"
  shows "InputBox_handle_all (InputBox r col tcol f [] True) (map keydown_char kcs) out
           = (InputBox r col tcol f (map snd kcs) True, out)
       \<and> InputBox_handle_all (InputBox r col tcol f [] True)
           (map keydown_char kcs @ [KEYDOWN K_RETURN u]) out
           = (InputBox r col tcol f [] True, out @ [''Input: '' @ map snd kcs])
       \<and> InputBox_handle_event (InputBox r col tcol f [] True) (KEYDOWN K_BACKSPACE u') out
           = (InputBox r col tcol f [] True, out)"
proof -
  have typed: "InputBox_handle_all (InputBox r col tcol f [] True) (map keydown_char kcs) out
                 = (InputBox r col tcol f (map snd kcs) True, out)"
    using InputBox_typing [OF assms, of r col tcol f "[]" out] by simp
  have submit: "InputBox_handle_all (InputBox r col tcol f (map snd kcs) True)
                  [KEYDOWN K_RETURN u] out
                 = (InputBox r col tcol f [] True, out @ [''Input: '' @ map snd kcs])"
    by (simp add: InputBox_handle_all_def)
  have bsp: "InputBox_handle_event (InputBox r col tcol f [] True) (KEYDOWN K_BACKSPACE u') out
                = (InputBox r col tcol f [] True, out)"
    by (simp add: K_RETURN_def K_BACKSPACE_def)
  show ?thesis
    using typed submit bsp by (simp add: InputBox_handle_all_append)
qed

theorem InputBox_type_submit_backspace_witness:
  "InputBox_handle_all (InputBox (rect input_box) (255, 255, 255) (0, 0, 0) 32 [] True)
     [KEYDOWN 104 ''h'', KEYDOWN 105 ''i''] []
     = (InputBox (rect input_box) (255, 255, 255) (0, 0, 0) 32 ''hi'' True, [])
   \<and> InputBox_handle_all (InputBox (rect input_box) (255, 255, 255) (0, 0, 0) 32 [] True)
     [KEYDOWN 104 ''h'', KEYDOWN 105 ''i'', KEYDOWN K_RETURN []] []
     = (InputBox (rect input_box) (255, 255, 255) (0, 0, 0) 32 [] True, [''Input: hi''])"
proof -
  have keys: "\<forall>kc \<in> set [(104, CHR ''h''), (105, CHR ''i'')].
                fst kc \<noteq> K_RETURN \<and> fst kc \<noteq> K_BACKSPACE"
    by (simp add: K_RETURN_def K_BACKSPACE_def)
  show ?thesis
    using InputBox_type_submit_backspace
            [OF keys, of "rect input_box" "(255, 255, 255)" "(0, 0, 0)" 32 "[]" "[]"]
    by (simp add: keydown_char_def)
qed

text \<open>
  C10. While the InputBox is focused, a key-down event whose key is neither Return nor
  Backspace appends the event's unicode string to the buffer, whatever the key is; with an
  empty unicode string the buffer is unchanged. No key-down event changes the focus state.
\<close>

theorem InputBox_key_appends_unicode:
  assumes "k \<noteq> K_RETURN" and "k \<noteq> K_BACKSPACE"
  shows "InputBox_handle_event (InputBox r col tcol f buf True) (KEYDOWN k u) out
           = (InputBox r col tcol f (buf @ u) True, out)
       \<and> InputBox_handle_event (InputBox r col tcol f buf True) (KEYDOWN k []) out
           = (InputBox r col tcol f buf True, out)
       \<and> active (fst (InputBox_handle_event (InputBox r col tcol f buf a) (KEYDOWN k' u') out)) = a"
  using assms by simp

theorem InputBox_key_appends_unicode_witness:
  "InputBox_handle_event (InputBox (rect input_box) (255, 255, 255) (0, 0, 0) 32 ''ab'' True)
     (KEYDOWN 9 [CHR 0x09]) []
     = (InputBox (rect input_box) (255, 255, 255) (0, 0, 0) 32 (''ab'' @ [CHR 0x09]) True, [])
   \<and> InputBox_handle_event (InputBox (rect input_box) (255, 255, 255) (0, 0, 0) 32 ''ab'' True)
     (KEYDOWN 1073742049 []) []
     = (InputBox (rect input_box) (255, 255, 255) (0, 0, 0) 32 ''ab'' True, [])"
proof -
  have tab: "(9::int) \<noteq> K_RETURN" "(9::int) \<noteq> K_BACKSPACE"
    by (simp_all add: K_RETURN_def K_BACKSPACE_def)
  have shift: "(1073742049::int) \<noteq> K_RETURN" "(1073742049::int) \<noteq> K_BACKSPACE"
    by (simp_all add: K_RETURN_def K_BACKSPACE_def)
  show ?thesis
    using InputBox_key_appends_unicode
            [OF tab, of "rect input_box" "(255, 255, 255)" "(0, 0, 0)" 32 "''ab''" "[CHR 0x09]" "[]"]
          InputBox_key_appends_unicode
            [OF shift, of "rect input_box" "(255, 255, 255)" "(0, 0, 0)" 32 "''ab''" "[]" "[]"]
    by (simp del: InputBox_handle_event.simps)
qed

section \<open>Event routing: click notifications\<close>

lemma notify_clicks_eq:
  "notify_clicks us p out =
     out @ map clicked_message (filter (\<lambda>u. is_Button u \<and> is_clicked u p) us)"
  by (induction us arbitrary: out) simp_all

lemma InputBox_press_prints_nothing:
  "is_InputBox u \<Longrightarrow> snd (InputBox_handle_event u (MOUSEBUTTONDOWN p b) out) = out"
  by (cases u) simp_all

lemma forward_press_prints_nothing:
  "snd (forward_event us (MOUSEBUTTONDOWN p b) out) = out"
  by (induction us arbitrary: out)
     (simp_all add: InputBox_press_prints_nothing case_prod_beta Let_def)

text \<open>
  C7. For a pointer press of button 1 the router appends to the output one click line for
  each Button of the widget list whose hit test succeeds, in list order, and nothing else:
  every Button that is hit is notified, not only the first, and a Button that is not hit,
  or a widget that is not a Button, gets no line.
\<close>

theorem handle_one_event_notifies_every_hit_button:
  "snd (handle_one_event eng (MOUSEBUTTONDOWN p 1) out) =
     out @ map clicked_message (filter (\<lambda>u. is_Button u \<and> is_clicked u p) (ui_elements eng))"
proof -
  have "snd (handle_one_event eng (MOUSEBUTTONDOWN p 1) out) =
          snd (forward_event (ui_elements eng) (MOUSEBUTTONDOWN p 1)
                 (notify_clicks (ui_elements eng) p out))"
    by (simp add: handle_one_event_def split: prod.splits)
  then show ?thesis
    by (simp add: forward_press_prints_nothing notify_clicks_eq)
qed

theorem handle_one_event_notifies_every_hit_button_witness:
  "snd (handle_one_event main_engine (MOUSEBUTTONDOWN (350, 260) 1) []) =
     [''Button '' @ [CHR 0x27] @ ''Start Game'' @ [CHR 0x27] @ '' clicked!'']
   \<and> snd (handle_one_event main_engine (MOUSEBUTTONDOWN (10, 10) 1) []) = []
   \<and> snd (handle_one_event
       (add_ui_element main_engine
          (Button \<lparr>x = 340, y = 255, width = 20, height = 10\<rparr> (0, 0, 255) ''Over'' (0, 0, 0) 12))
       (MOUSEBUTTONDOWN (350, 260) 1) []) =
     [''Button '' @ [CHR 0x27] @ ''Start Game'' @ [CHR 0x27] @ '' clicked!'',
      ''Button '' @ [CHR 0x27] @ ''Over'' @ [CHR 0x27] @ '' clicked!'']"
  using handle_one_event_notifies_every_hit_button [of main_engine "(350, 260)" "[]"]
        handle_one_event_notifies_every_hit_button [of main_engine "(10, 10)" "[]"]
        handle_one_event_notifies_every_hit_button
          [of "add_ui_element main_engine
                 (Button \<lparr>x = 340, y = 255, width = 20, height = 10\<rparr> (0, 0, 255) ''Over'' (0, 0, 0) 12)"
              "(350, 260)" "[]"]
  by (simp add: main_engine_def add_ui_element_def add_game_object_def GameEngine_init_def
        start_button_def title_label_def input_box_def scroll_view_def
        clicked_message_def collidepoint_def c_int_def)

section \<open>Event routing: the quit signal\<close>

lemma InputBox_ignores_QUIT:
  "is_InputBox u \<Longrightarrow> InputBox_handle_event u QUIT out = (u, out)"
  by (cases u) simp_all

lemma ScrollView_ignores_QUIT:
  "is_ScrollView u \<Longrightarrow> ScrollView_handle_event u QUIT = u"
  by (cases u) simp_all

lemma forward_QUIT:
  "forward_event us QUIT out = (us, out)"
  by (induction us) (simp_all add: InputBox_ignores_QUIT ScrollView_ignores_QUIT)

lemma handle_one_event_QUIT:
  "handle_one_event eng QUIT out = (eng\<lparr>running := False\<rparr>, out)"
  by (simp add: handle_one_event_def forward_QUIT)

lemma handle_events_append:
  "handle_events eng (evs @ evs') out =
     (case handle_events eng evs out of (eng', out') \<Rightarrow> handle_events eng' evs' out')"
  by (induction evs arbitrary: eng out) (simp_all split: prod.splits)

lemma handle_one_event_stays_stopped:
  "\<not> running eng \<Longrightarrow> \<not> running (fst (handle_one_event eng ev out))"
  by (simp add: handle_one_event_def split: prod.splits)

lemma handle_events_stays_stopped:
  "\<not> running eng \<Longrightarrow> \<not> running (fst (handle_events eng evs out))"
proof (induction evs arbitrary: eng out)
  case Nil
  then show ?case by simp
next
  case (Cons ev evs)
  obtain eng' out' where step: "handle_one_event eng ev out = (eng', out')"
    by (cases "handle_one_event eng ev out")
  with Cons.prems have "\<not> running eng'"
    using handle_one_event_stays_stopped [of eng ev out] by simp
  then show ?case
    using Cons.IH [of eng' out'] step by simp
qed

lemma handle_one_event_widgets_only:
  "ui_elements e1 = ui_elements e2 \<Longrightarrow>
   ui_elements (fst (handle_one_event e1 ev out)) = ui_elements (fst (handle_one_event e2 ev out))
   \<and> snd (handle_one_event e1 ev out) = snd (handle_one_event e2 ev out)"
  by (cases ev) (simp_all add: handle_one_event_def case_prod_beta Let_def)

lemma handle_events_widgets_only:
  "ui_elements e1 = ui_elements e2 \<Longrightarrow>
   ui_elements (fst (handle_events e1 evs out)) = ui_elements (fst (handle_events e2 evs out))
   \<and> snd (handle_events e1 evs out) = snd (handle_events e2 evs out)"
proof (induction evs arbitrary: e1 e2 out)
  case Nil
  then show ?case by simp
next
  case (Cons ev evs)
  obtain a1 o1 where s1: "handle_one_event e1 ev out = (a1, o1)"
    by (cases "handle_one_event e1 ev out")
  obtain a2 o2 where s2: "handle_one_event e2 ev out = (a2, o2)"
    by (cases "handle_one_event e2 ev out")
  have "ui_elements a1 = ui_elements a2" and "o1 = o2"
    using handle_one_event_widgets_only [OF Cons.prems, of ev out] s1 s2 by simp_all
  then show ?case
    using Cons.IH [of a1 a2 o1] s1 s2 by simp
qed

text \<open>
  C1, as the code has it. A quit event sets the running flag to false and the flag is still
  false at the end of the frame, but the loop over the queue goes on: the events behind the
  quit event are handled from the state the quit event left, and the widgets and the output
  end up as they would had the quit event not been in the queue.
\<close>

theorem handle_events_quit_continues:
  "\<not> running (fst (handle_events eng (pre @ QUIT # post) out))
   \<and> handle_events eng (pre @ QUIT # post) out =
       (case handle_events eng pre out of
          (eng', out') \<Rightarrow> handle_events (eng'\<lparr>running := False\<rparr>) post out')
   \<and> ui_elements (fst (handle_events eng (pre @ QUIT # post) out)) =
       ui_elements (fst (handle_events eng (pre @ post) out))
   \<and> snd (handle_events eng (pre @ QUIT # post) out) = snd (handle_events eng (pre @ post) out)"
proof -
  obtain eng' out' where pre: "handle_events eng pre out = (eng', out')"
    by (cases "handle_events eng pre out")
  have split_q: "handle_events eng (pre @ QUIT # post) out =
                   handle_events (eng'\<lparr>running := False\<rparr>) post out'"
    by (simp add: handle_events_append pre handle_one_event_QUIT)
  have split_n: "handle_events eng (pre @ post) out = handle_events eng' post out'"
    by (simp add: handle_events_append pre)
  have stopped: "\<not> running (fst (handle_events (eng'\<lparr>running := False\<rparr>) post out'))"
    by (rule handle_events_stays_stopped) simp
  have same: "ui_elements (fst (handle_events (eng'\<lparr>running := False\<rparr>) post out')) =
                ui_elements (fst (handle_events eng' post out'))
              \<and> snd (handle_events (eng'\<lparr>running := False\<rparr>) post out') =
                snd (handle_events eng' post out')"
    by (rule handle_events_widgets_only) simp
  show ?thesis
    unfolding split_q split_n using stopped same by (simp add: pre)
qed

text \<open>
  C1, as the claim has it, fails: with the example program's widgets, a press on the start
  button that is queued behind a quit event is still handled in that frame, and its click
  line is printed.
\<close>

theorem handle_events_quit_counterexample:
  "handle_events main_engine [QUIT, MOUSEBUTTONDOWN (350, 260) 1] [] =
     (main_engine\<lparr>running := False\<rparr>,
      [''Button '' @ [CHR 0x27] @ ''Start Game'' @ [CHR 0x27] @ '' clicked!''])
   \<and> handle_events main_engine [QUIT] [] = (main_engine\<lparr>running := False\<rparr>, [])"
  by (simp add: main_engine_def add_ui_element_def add_game_object_def GameEngine_init_def
        start_button_def title_label_def input_box_def scroll_view_def handle_one_event_def
        clicked_message_def collidepoint_def c_int_def)

section \<open>Construction\<close>

lemma to_c_int_in_range: "in_c_int v \<Longrightarrow> to_c_int v = Inr v"
  by (simp add: to_c_int_def in_c_int_def c_int_def)

lemma Rect_init_in_range:
  assumes "in_c_int px" and "in_c_int py" and "in_c_int w" and "in_c_int h"
  shows "Rect_init px py w h = Inr \<lparr>x = px, y = py, width = w, height = h\<rparr>"
  using assms by (simp add: Rect_init_def to_c_int_in_range)

text \<open>
  C3, as the code has it. No constructor looks at the width or the height. With the position
  and the size in the C int range, zero and negative sizes included, the construction of a
  GameObject or a ScrollView succeeds, and that of a Button, a Label or an InputBox raises
  exactly what pygame's font creation raises for the font size, and succeeds where that
  returns a font; the object's rect holds the width and the height as they were given.
\<close>

theorem init_ignores_size:
  assumes "in_c_int px" and "in_c_int py" and "in_c_int w" and "in_c_int h"
  shows "GameObject_init px py w h col =
           Inr (GameObject \<lparr>x = px, y = py, width = w, height = h\<rparr> col)
       \<and> ScrollView_init px py w h col ch =
           Inr (ScrollView \<lparr>x = px, y = py, width = w, height = h\<rparr> col ch 0 None)
       \<and> Button_init Font px py w h col label tcol fs =
           (case Font fs of
              Inl e \<Rightarrow> Inl e
            | Inr fnt \<Rightarrow>
                Inr (Button \<lparr>x = px, y = py, width = w, height = h\<rparr> col label tcol fnt))
       \<and> Label_init Font px py w h col label tcol fs =
           (case Font fs of
              Inl e \<Rightarrow> Inl e
            | Inr fnt \<Rightarrow>
                Inr (Label \<lparr>x = px, y = py, width = w, height = h\<rparr> col label tcol fnt))
       \<and> InputBox_init Font px py w h col tcol fs =
           (case Font fs of
              Inl e \<Rightarrow> Inl e
            | Inr fnt \<Rightarrow>
                Inr (InputBox \<lparr>x = px, y = py, width = w, height = h\<rparr> col tcol fnt [] False))"
  using Rect_init_in_range [OF assms]
  by (simp add: GameObject_init_def Button_init_def Label_init_def InputBox_init_def
        ScrollView_init_def split: sum.splits)

theorem init_ignores_size_witness:
  "in_c_int 50 \<and> in_c_int 400 \<and> in_c_int 0 \<and> in_c_int (- 150)
   \<and> ScrollView_init 50 400 0 (- 150) (100, 100, 100) 300 =
       Inr (ScrollView \<lparr>x = 50, y = 400, width = 0, height = - 150\<rparr> (100, 100, 100) 300 0 None)
   \<and> InputBox_init Inr 50 400 0 (- 150) (255, 255, 255) (0, 0, 0) 32 =
       Inr (InputBox \<lparr>x = 50, y = 400, width = 0, height = - 150\<rparr> (255, 255, 255) (0, 0, 0) 32
              [] False)
   \<and> Label_init Inr 50 400 0 (- 150) (0, 0, 0) ''Item 1'' (255, 255, 255) 24 =
       Inr (Label \<lparr>x = 50, y = 400, width = 0, height = - 150\<rparr> (0, 0, 0) ''Item 1''
              (255, 255, 255) 24)"
proof -
  have r: "in_c_int 50" "in_c_int 400" "in_c_int 0" "in_c_int (- 150)"
    by (simp_all add: in_c_int_def)
  show ?thesis
    using r
      init_ignores_size [OF r, where col = "(100, 100, 100)" and ch = 300]
      init_ignores_size [OF r, where col = "(255, 255, 255)" and Font = Inr
                                 and tcol = "(0, 0, 0)" and fs = 32]
      init_ignores_size [OF r, where col = "(0, 0, 0)" and Font = Inr and label = "''Item 1''"
                                 and tcol = "(255, 255, 255)" and fs = 24]
    by simp
qed

text \<open>
  C3, as the claim has it, fails: a GameObject of width 0 and height -50 is constructed
  without an error, and so is a Button of width -200 where the font creation returns a font.
\<close>

theorem init_nonpositive_size_counterexample:
  "GameObject_init 100 100 0 (- 50) (255, 0, 0) =
     Inr (GameObject \<lparr>x = 100, y = 100, width = 0, height = - 50\<rparr> (255, 0, 0))
   \<and> Button_init Inr 300 250 (- 200) 50 (0, 255, 0) ''Start Game'' (255, 255, 255) 36 =
     Inr (Button \<lparr>x = 300, y = 250, width = - 200, height = 50\<rparr> (0, 255, 0)
            ''Start Game'' (255, 255, 255) 36)"
  by (simp add: GameObject_init_def Button_init_def Rect_init_def to_c_int_def c_int_def)

section \<open>ScrollView: the scroll offset\<close>

lemma ScrollView_step_bounds:
  assumes "height r \<le> ch" and "- (ch - height r) \<le> sy" and "sy \<le> 0"
  shows "\<exists>sy'. ScrollView_handle_event (ScrollView r col ch sy kids) ev =
                  ScrollView r col ch sy' kids
               \<and> - (ch - height r) \<le> sy' \<and> sy' \<le> 0"
  using assms by (cases ev) (auto simp: Let_def)

text \<open>
  Where the content is at least as tall as the view, the offset stays between
  \<open>- (content_height - height)\<close> and 0 through every sequence of events.
\<close>

lemma ScrollView_bounds_when_content_fills_view:
  assumes "height r \<le> ch" and "- (ch - height r) \<le> sy" and "sy \<le> 0"
  shows "\<exists>sy'. ScrollView_handle_all (ScrollView r col ch sy kids) evs =
                  ScrollView r col ch sy' kids
               \<and> - (max (ch - height r) 0) \<le> sy' \<and> sy' \<le> 0"
  using assms
proof (induction evs arbitrary: sy)
  case Nil
  then show ?case by (simp add: ScrollView_handle_all_def)
next
  case (Cons ev evs)
  obtain sy1 where
    step: "ScrollView_handle_event (ScrollView r col ch sy kids) ev = ScrollView r col ch sy1 kids"
    and lo: "- (ch - height r) \<le> sy1" and hi: "sy1 \<le> 0"
    using ScrollView_step_bounds [OF Cons.prems, of col kids ev] by blast
  show ?case
    using Cons.IH [OF Cons.prems(1) lo hi] step by (simp add: ScrollView_handle_all_def)
qed

text \<open>
  C2 does not hold of the code where the content is shorter than the view. A ScrollView of
  height 150 with content height 100 starts at offset 0 and, on one scroll-down event inside
  its bounds, moves to offset 50: \<open>max (0 - 10) (- (100 - 150))\<close>. The bound of the claim,
  \<open>- max (100 - 150) 0 \<le> offset \<le> 0\<close>, is broken from above.
\<close>

theorem ScrollView_short_content_scrolls_positive:
  "ScrollView_init 0 0 100 150 (100, 100, 100) 100 =
     Inr (ScrollView \<lparr>x = 0, y = 0, width = 100, height = 150\<rparr> (100, 100, 100) 100 0 None)
   \<and> scroll_y (ScrollView_handle_all
        (ScrollView \<lparr>x = 0, y = 0, width = 100, height = 150\<rparr> (100, 100, 100) 100 0 None)
        [MOUSEBUTTONDOWN (10, 10) 5]) = 50
   \<and> \<not> (scroll_y (ScrollView_handle_all
        (ScrollView \<lparr>x = 0, y = 0, width = 100, height = 150\<rparr> (100, 100, 100) 100 0 None)
        [MOUSEBUTTONDOWN (10, 10) 5]) \<le> 0)"
  by (simp add: ScrollView_init_def GameObject_init_def Rect_init_def to_c_int_def
        ScrollView_handle_all_def collidepoint_def c_int_def)

section \<open>ScrollView: rendering\<close>

lemma rect_set_rect [simp]: "rect (set_rect w r) = r"
  by (cases w) simp_all

lemma set_rect_twice [simp]: "set_rect (set_rect w r) r' = set_rect w r'"
  by (cases w) simp_all

lemma set_rect_same [simp]: "set_rect w (rect w) = w"
  by (cases w) simp_all

lemma shift_y_back:
  assumes "shift_y w d = Inr w1" and "shift_y w1 (- d) = Inr w2"
  shows "w2 = w"
  using assms by (auto simp: shift_y_def split: if_splits)

lemma clip_GameObject_draw [simp]: "clip (GameObject_draw w scr) = clip scr"
  by (simp add: GameObject_draw_def paint_def)

lemma clip_paint [simp]: "clip (paint scr op) = clip scr"
  by (simp add: paint_def)

text \<open>
  The translate-draw-restore of \<^verbatim>\<open>ScrollView.draw\<close> does what it is written for on every
  call that returns: a render that raises nothing gives back the tree it was given, every
  child's rect included, and leaves the clip as it found it.
\<close>

lemma draw_returning_restores:
  shows "\<forall>scr' w'. draw w scr = (scr', w', None) \<longrightarrow> w' = w \<and> clip scr' = clip scr"
    and "\<forall>scr' cs'. draw_children sy cs scr = (scr', cs', None) \<longrightarrow>
                     cs' = cs \<and> clip scr' = clip scr"
proof (induction w scr and sy cs scr rule: draw_draw_children.induct)
  case (1 r col scr)
  show ?case by simp
next
  case (2 r col label tcol f scr)
  show ?case by (simp add: Let_def)
next
  case (3 r col label tcol f scr)
  show ?case by (simp add: Let_def)
next
  case (4 r col tcol f buf a scr)
  show ?case by (simp add: Let_def)
next
  case (5 r col ch sy kids scr)
  show ?case
  proof (intro allI impI)
    fix scr' w'
    assume ret: "draw (ScrollView r col ch sy kids) scr = (scr', w', None)"
    then obtain cs where kids: "kids = Some cs"
      by (cases kids) (simp_all add: Let_def)
    obtain scr3 cs' e where loop:
      "draw_children sy cs (GameObject_draw (ScrollView r col ch sy kids) (scr\<lparr>clip := r\<rparr>))
         = (scr3, cs', e)"
      by (cases "draw_children sy cs (GameObject_draw (ScrollView r col ch sy kids)
                   (scr\<lparr>clip := r\<rparr>))")
    from ret kids loop have e: "e = None"
      by (cases e) (simp_all add: Let_def)
    from 5 [OF refl refl refl kids] loop e have "cs' = cs"
      by simp
    with ret kids loop e show "w' = ScrollView r col ch sy kids \<and> clip scr' = clip scr"
      by (auto simp: Let_def)
  qed
next
  case (6 sy scr)
  show ?case by simp
next
  case (7 sy child rest scr)
  show ?case
  proof (intro allI impI)
    fix scr' cs'
    assume ret: "draw_children sy (child # rest) scr = (scr', cs', None)"
    then obtain moved where moved: "shift_y child sy = Inr moved"
      by (cases "shift_y child sy") simp_all
    obtain scr1 drawn e1 where one: "draw moved scr = (scr1, drawn, e1)"
      by (cases "draw moved scr")
    from ret moved one have e1: "e1 = None"
      by (cases e1) simp_all
    from 7(1) [OF moved] one e1 have drawn: "drawn = moved" and c1: "clip scr1 = clip scr"
      by simp_all
    from ret moved one e1 obtain restored where restored: "shift_y drawn (- sy) = Inr restored"
      by (cases "shift_y drawn (- sy)") simp_all
    have same: "restored = child"
      using shift_y_back [OF moved] restored drawn by simp
    obtain scr2 rest' e2 where others: "draw_children sy rest scr1 = (scr2, rest', e2)"
      by (cases "draw_children sy rest scr1")
    from ret moved one e1 restored others
    have fin: "scr' = scr2" "cs' = restored # rest'" "e2 = None"
      by simp_all
    from 7(2) [OF moved one [symmetric] refl e1 restored] others fin
    have "rest' = rest" and "clip scr2 = clip scr1"
      by simp_all
    with fin same c1 show "cs' = child # rest \<and> clip scr' = clip scr"
      by simp
  qed
qed

text \<open>
  Such a call: the example program's ScrollView, scrolled down once, renders its ten labels
  and is what it was before.
\<close>

lemma draw_scroll_view_returns:
  "snd (draw (ScrollView (rect scroll_view) (color scroll_view) 300 (- 10)
                (Some scroll_view_children))
          \<lparr>clip = \<lparr>x = 0, y = 0, width = 800, height = 600\<rparr>, ops = []\<rparr>) =
     (ScrollView (rect scroll_view) (color scroll_view) 300 (- 10) (Some scroll_view_children),
      None)"
  by (simp add: scroll_view_def scroll_view_children_def item_label_def shift_y_def
        in_c_int_def GameObject_draw_def paint_def)

text \<open>
  C5 does not hold of the code on a call that raises: the loop moves the child, draws it and
  moves it back, and an exception out of the child's \<^verbatim>\<open>draw\<close> leaves the loop before the
  move back. \<open>nested_view\<close> is a ScrollView as its constructor returns it, without
  \<^verbatim>\<open>children\<close>; \<open>outer_view\<close> has it as its only child. One scroll-down event inside the
  bounds puts \<open>outer_view\<close> at offset -10. Its render then raises the AttributeError of the
  child's render, and the child's stored rect, at \<open>y = 410\<close> before the call, is at \<open>y = 400\<close>
  after it.
\<close>

theorem ScrollView_draw_raise_leaves_child_moved:
  "ScrollView_init 60 410 200 100 (0, 0, 0) 50 = Inr nested_view
   \<and> ScrollView_handle_event outer_view (MOUSEBUTTONDOWN (60, 410) 5) =
       ScrollView (rect outer_view) (color outer_view) 300 (- 10) (Some [nested_view])
   \<and> snd (draw (ScrollView (rect outer_view) (color outer_view) 300 (- 10) (Some [nested_view]))
            \<lparr>clip = \<lparr>x = 0, y = 0, width = 800, height = 600\<rparr>, ops = []\<rparr>) =
       (ScrollView (rect outer_view) (color outer_view) 300 (- 10)
          (Some [ScrollView \<lparr>x = 60, y = 400, width = 200, height = 100\<rparr> (0, 0, 0) 50 0 None]),
        Some AttributeError)
   \<and> y (rect nested_view) = 410"
  by (simp add: ScrollView_init_def GameObject_init_def Rect_init_def to_c_int_def c_int_def
        nested_view_def outer_view_def collidepoint_def shift_y_def in_c_int_def)

end
